theory Spec2Isabelle
  imports
    Main
    "HOL-Library.Word"
    "HOL-Library.Multiset"
    "HOL-Library.Char_ord"
    "HOL-Library.List_Lexorder"
begin

unbundle bit_operations_syntax

section \<open>Data model of main.go\<close>

text \<open>
  A Go \<open>string\<close> is a sequence of bytes: \<open>string\<close> (\<open>char list\<close>) here.
  A \<open>time.Time\<close> is read as the instant it denotes, in nanoseconds since the epoch;
  \<open>Time.After\<close> compares instants. A Go \<open>error\<close> is the message it carries.
\<close>

type_synonym time = int
type_synonym go_error = string
type_synonym bytes = string
type_synonym image = "nat list"

definition After :: "time \<Rightarrow> time \<Rightarrow> bool" where
  "After t u = (u < t)"

record ArchiveCategory =
  cat_Name :: string
  cat_Elements :: int

record ArchiveDoc =
  Id :: "64 word"
  Name :: string
  Size :: int
  CreateDate :: time
  FileDate :: time
  Pages :: int
  Content :: string
  FilePath :: string

record ArchiveDocThumb =
  thumb_Id :: "64 word"
  Thumb :: image
  Encoding :: bytes

text \<open>The two package-level caches (\<open>docCache\<close>, \<open>docThumbCache\<close>); the mutexes
  guard single map operations and have no sequential content.\<close>

record server =
  docCache :: "64 word \<rightharpoonup> ArchiveDoc"
  docThumbCache :: "64 word \<rightharpoonup> ArchiveDocThumb"

definition init_server :: server where
  "init_server = \<lparr> docCache = Map.empty, docThumbCache = Map.empty \<rparr>"

section \<open>The outside world: file system, PDF library, clock\<close>

record fileinfo =
  fi_Size :: int
  fi_ModTime :: time
  fi_IsDir :: bool

text \<open>What go-poppler gives for an opened document: \<open>GetNPages\<close>, the text of
  \<open>GetPage(0)\<close> and its rendering at a resolution.\<close>

record pdf_document =
  pdf_NPages :: int
  pdf_Page0_Text :: string
  pdf_Page0_Render :: "int \<Rightarrow> image"

text \<open>
  Every answer the operating system and the libraries give for a path:
  \<^item> \<open>os_Open p\<close>: \<open>os.Open(p)\<close>, and for an opened file what \<open>Stat\<close> on it returns;
  \<^item> \<open>poppler_Open p\<close>: \<open>poppler.Open(p)\<close>;
  \<^item> \<open>readdir p\<close>: the names in directory \<open>p\<close> as \<open>filepath.Glob\<close> reads them
    (\<open>None\<close> when \<open>p\<close> is no directory or cannot be read);
  \<^item> \<open>lstat_ok p\<close>: whether \<open>os.Lstat(p)\<close> succeeds;
  \<^item> \<open>time_Date\<close>: \<open>time.Date(y, m, d, h, mi, s, 0, time.Now().Location())\<close>;
  \<^item> \<open>jpeg_Encode\<close>: the bytes \<open>jpeg.Encode\<close> writes for an image.
\<close>

record world =
  os_Open :: "string \<Rightarrow> go_error + (go_error + fileinfo)"
  poppler_Open :: "string \<Rightarrow> go_error + pdf_document"
  readdir :: "string \<Rightarrow> string list option"
  lstat_ok :: "string \<Rightarrow> bool"
  time_Date :: "int \<Rightarrow> int \<Rightarrow> int \<Rightarrow> int \<Rightarrow> int \<Rightarrow> int \<Rightarrow> time"
  jpeg_Encode :: "image \<Rightarrow> bytes"

section \<open>Library functions the handlers call\<close>

subsection \<open>hash/fnv: New64a, Write, Sum64\<close>

definition offset64 :: "64 word" where
  "offset64 = 14695981039346656037"

definition prime64 :: "64 word" where
  "prime64 = 1099511628211"

definition byte_of :: "char \<Rightarrow> nat" where
  "byte_of c = of_char c"

definition fnv64a :: "string \<Rightarrow> 64 word" where
  "fnv64a s = foldl (\<lambda>hash c. (hash XOR of_nat (byte_of c)) * prime64) offset64 s"

subsection \<open>path.Base\<close>

fun strip_trailing_slashes :: "string \<Rightarrow> string" where
  "strip_trailing_slashes p =
     (if p \<noteq> [] \<and> last p = CHR ''/'' then strip_trailing_slashes (butlast p) else p)"

declare strip_trailing_slashes.simps [simp del]

text \<open>The part of \<open>p\<close> after its last slash (all of \<open>p\<close> when it has none).\<close>

definition after_last_slash :: "string \<Rightarrow> string" where
  "after_last_slash p = rev (takeWhile (\<lambda>c. c \<noteq> CHR ''/'') (rev p))"

definition path_Base :: "string \<Rightarrow> string" where
  "path_Base p =
     (if p = [] then ''.''
      else let q = after_last_slash (strip_trailing_slashes p)
           in if q = [] then ''/'' else q)"

subsection \<open>strings.HasPrefix, strings.HasSuffix\<close>

definition HasPrefix :: "string \<Rightarrow> string \<Rightarrow> bool" where
  "HasPrefix s p = (take (length p) s = p)"

definition HasSuffix :: "string \<Rightarrow> string \<Rightarrow> bool" where
  "HasSuffix s p = (length p \<le> length s \<and> drop (length s - length p) s = p)"

subsection \<open>fmt.Sscanf with the verb \<open>%d\<close> and literal characters\<close>

text \<open>
  The input is scanned byte by byte (white space outside ASCII is not modelled).
  \<open>SkipSpace\<close> stops with an error at a newline, as \<open>Sscanf\<close> does.
\<close>

definition isSpace :: "char \<Rightarrow> bool" where
  "isSpace c = (c = CHR '' '' \<or> (9 \<le> byte_of c \<and> byte_of c \<le> 13))"

definition isDigit :: "char \<Rightarrow> bool" where
  "isDigit c = (48 \<le> byte_of c \<and> byte_of c \<le> 57)"

fun SkipSpace :: "string \<Rightarrow> string option" where
  "SkipSpace [] = Some []"
| "SkipSpace (r # rest) =
     (if r = CHR 0x0D \<and> rest \<noteq> [] \<and> hd rest = CHR 0x0A then SkipSpace rest
      else if r = CHR 0x0A then None
      else if isSpace r then SkipSpace rest
      else Some (r # rest))"

definition digits_value :: "string \<Rightarrow> nat" where
  "digits_value ds = foldl (\<lambda>n c. 10 * n + (byte_of c - 48)) 0 ds"

text \<open>\<open>strconv.ParseInt(tok, 10, 64)\<close> on a token of an optional sign and digits;
  \<open>None\<close> is the range error.\<close>

definition ParseInt64 :: "bool \<Rightarrow> string \<Rightarrow> int option" where
  "ParseInt64 neg ds =
     (let v = int (digits_value ds)
      in if neg then (if v \<le> 2 ^ 63 then Some (- v) else None)
         else (if v < 2 ^ 63 then Some v else None))"

text \<open>\<open>scanInt\<close> for \<open>%d\<close>: skip space, not at end of input, one optional sign, at
  least one digit, then all digits that follow.\<close>

definition scanInt :: "string \<Rightarrow> (int \<times> string) option" where
  "scanInt inp =
     (case SkipSpace inp of
        None \<Rightarrow> None
      | Some s1 \<Rightarrow>
          (case s1 of
             [] \<Rightarrow> None
           | c # s2 \<Rightarrow>
               let sgn = (c = CHR ''+'' \<or> c = CHR ''-'');
                   s3 = (if sgn then s2 else s1);
                   ds = takeWhile isDigit s3
               in if ds = [] then None
                  else (case ParseInt64 (c = CHR ''-'') ds of
                          None \<Rightarrow> None
                        | Some i \<Rightarrow> Some (i, dropWhile isDigit s3))))"

datatype fmt_item = Verb_d | Lit char

text \<open>\<open>doScanf\<close>: the operands stored so far, and whether the scan ended without error.\<close>

fun doScanf :: "fmt_item list \<Rightarrow> string \<Rightarrow> int list \<Rightarrow> int list \<times> bool" where
  "doScanf [] inp acc = (acc, True)"
| "doScanf (Verb_d # fmt) inp acc =
     (case scanInt inp of
        None \<Rightarrow> (acc, False)
      | Some (i, rest) \<Rightarrow> doScanf fmt rest (acc @ [i]))"
| "doScanf (Lit c # fmt) inp acc =
     (case inp of
        [] \<Rightarrow> (acc, False)
      | r # rest \<Rightarrow> if r = c then doScanf fmt rest acc else (acc, False))"

text \<open>The format \<open>"%d_%d_%d_%d_%d_%d"\<close>.\<close>

definition date_format :: "fmt_item list" where
  "date_format =
     [Verb_d, Lit (CHR ''_''), Verb_d, Lit (CHR ''_''), Verb_d, Lit (CHR ''_''),
      Verb_d, Lit (CHR ''_''), Verb_d, Lit (CHR ''_''), Verb_d]"

text \<open>\<open>fmt.Sscanf(s, format, ...)\<close>: the number of operands parsed, whether \<open>err == nil\<close>,
  and the operands (a variable that was not reached keeps its zero value).\<close>

definition Sscanf :: "string \<Rightarrow> fmt_item list \<Rightarrow> nat \<times> bool \<times> (nat \<Rightarrow> int)" where
  "Sscanf s format =
     (let (vals, ok) = doScanf format s []
      in (length vals, ok, \<lambda>k. if k < length vals then vals ! k else 0))"

subsection \<open>encoding/base64: StdEncoding.EncodeToString\<close>

definition encodeStd :: string where
  "encodeStd = ''ABCDEFGHIJKLMNOPQRSTUVWXYZabcdefghijklmnopqrstuvwxyz0123456789+/''"

definition b64 :: "nat \<Rightarrow> char" where
  "b64 n = encodeStd ! (n mod 64)"

fun EncodeToString :: "nat list \<Rightarrow> string" where
  "EncodeToString [] = []"
| "EncodeToString [a] = [b64 (a div 4), b64 ((a mod 4) * 16), CHR ''='', CHR ''='']"
| "EncodeToString [a, b] =
     [b64 (a div 4), b64 ((a mod 4) * 16 + b div 16), b64 ((b mod 16) * 4), CHR ''='']"
| "EncodeToString (a # b # c # rest) =
     [b64 (a div 4), b64 ((a mod 4) * 16 + b div 16), b64 ((b mod 16) * 4 + c div 64),
      b64 (c mod 64)] @ EncodeToString rest"

section \<open>ProcessDocument\<close>

definition ProcessDocument ::
  "world \<Rightarrow> server \<Rightarrow> string \<Rightarrow> (go_error + ArchiveDoc) \<times> server" where
  "ProcessDocument w s filepath =
     (let docId = fnv64a filepath
      in case docCache s docId of
           Some prestoredDoc \<Rightarrow> (Inr prestoredDoc, s)
         | None \<Rightarrow>
             (case os_Open w filepath of
                Inl err \<Rightarrow> (Inl err, s)
              | Inr stat \<Rightarrow>
                  (case stat of
                     Inl err \<Rightarrow> (Inl err, s)
                   | Inr fi \<Rightarrow>
                       let fileSize = fi_Size fi;
                           modTime = fi_ModTime fi;
                           (numparsed, ok, v) = Sscanf (path_Base filepath) date_format;
                           fileTime = (if ok \<and> numparsed = 6
                                       then time_Date w (v 0) (v 1) (v 2) (v 3) (v 4) (v 5)
                                       else modTime)
                       in case poppler_Open w filepath of
                            Inl err \<Rightarrow> (Inl err, s)
                          | Inr pdfDoc \<Rightarrow>
                              let newDoc = \<lparr> Id = docId,
                                             Name = path_Base filepath,
                                             Size = fileSize,
                                             CreateDate = modTime,
                                             FileDate = fileTime,
                                             Pages = pdf_NPages pdfDoc,
                                             Content = EncodeToString
                                               (map byte_of (pdf_Page0_Text pdfDoc)),
                                             FilePath = filepath \<rparr>
                              in (Inr newDoc, docCache_update (\<lambda>m. m(docId \<mapsto> newDoc)) s))))"

section \<open>DocThumbnail\<close>

subsection \<open>strconv.ParseUint(s, 10, 64) and the verb \<open>%v\<close> on a \<open>uint64\<close>\<close>

text \<open>The value returned and whether \<open>err == nil\<close>: 0 with a syntax error, the
  largest \<open>uint64\<close> with a range error. \<open>cutoff\<close> is \<open>maxUint64/10 + 1\<close>; the sum
  \<open>n1\<close> wraps around as the \<open>uint64\<close> does.\<close>

definition cutoff :: "64 word" where
  "cutoff = 1844674407370955162"

definition maxVal :: "64 word" where
  "maxVal = 18446744073709551615"

fun ParseUint_loop :: "string \<Rightarrow> 64 word \<Rightarrow> 64 word \<times> bool" where
  "ParseUint_loop [] n = (n, True)"
| "ParseUint_loop (c # cs) n =
     (if \<not> isDigit c then (0, False)
      else if n \<ge> cutoff then (maxVal, False)
      else let n10 = n * 10;
               n1 = n10 + of_nat (byte_of c - 48)
           in if n1 < n10 then (maxVal, False)
              else ParseUint_loop cs n1)"

definition ParseUint :: "string \<Rightarrow> 64 word \<times> bool" where
  "ParseUint s = (if s = [] then (0, False) else ParseUint_loop s 0)"

fun decimal :: "nat \<Rightarrow> string" where
  "decimal n =
     (if n < 10 then [char_of (48 + n)]
      else decimal (n div 10) @ [char_of (48 + n mod 10)])"

declare decimal.simps [simp del]

subsection \<open>The handler\<close>

text \<open>
  What a request leaves behind: the bytes written to the \<open>ResponseWriter\<close>, the calls
  made on the PDF library, and how the handler ended. A handler that reads a field
  through a nil pointer panics (\<open>Panicked\<close>); \<open>net/http\<close> recovers the panic, the
  process goes on.
\<close>

datatype ending = Returned | Panicked

datatype pdf_call = PdfOpen string | PdfGetPage int | PdfRender int

record response =
  body :: bytes
  pdf_io :: "pdf_call list"
  ending :: ending

text \<open>
  Lines 240-244 and 257-260 report an error and go on (there is no \<open>return\<close>). With
  no cached document \<open>prestoredDoc\<close> is nil, and \<open>prestoredDoc.FilePath\<close> on line 262
  panics before \<open>poppler.Open\<close> is reached. After a failed \<open>poppler.Open\<close> (line 263,
  no \<open>return\<close> either) the document cannot be used: the request is taken to end
  at \<open>GetPage\<close>, with nothing written and nothing stored.
\<close>

definition DocThumbnail :: "world \<Rightarrow> server \<Rightarrow> string \<Rightarrow> response \<times> server" where
  "DocThumbnail w s docIdStr =
     (let (docId, ok) = ParseUint docIdStr;
          out = (if ok then [] else ''Invalid docid: '' @ docIdStr)
      in case docThumbCache s docId of
           Some prestoredThumb \<Rightarrow>
             (\<lparr> body = out @ Encoding prestoredThumb, pdf_io = [], ending = Returned \<rparr>, s)
         | None \<Rightarrow>
             (case docCache s docId of
                None \<Rightarrow>
                  (\<lparr> body = out @ ''Requesting unknown document: '' @ decimal (unat docId),
                     pdf_io = [], ending = Panicked \<rparr>, s)
              | Some prestoredDoc \<Rightarrow>
                  (case poppler_Open w (FilePath prestoredDoc) of
                     Inl err \<Rightarrow>
                       (\<lparr> body = out, pdf_io = [PdfOpen (FilePath prestoredDoc)],
                          ending = Panicked \<rparr>, s)
                   | Inr pdfDoc \<Rightarrow>
                       let pageImage = pdf_Page0_Render pdfDoc 300;
                           b = jpeg_Encode w pageImage;
                           newThumb = \<lparr> thumb_Id = docId, Thumb = pageImage, Encoding = b \<rparr>
                       in (\<lparr> body = out @ b,
                             pdf_io = [PdfOpen (FilePath prestoredDoc), PdfGetPage 0,
                                       PdfRender 300],
                             ending = Returned \<rparr>,
                           docThumbCache_update (\<lambda>m. m(docId \<mapsto> newThumb)) s))))"

text \<open>The states a server passes through: it starts with both caches empty, and the
  caches change only in \<open>ProcessDocument\<close> and \<open>DocThumbnail\<close>.\<close>

inductive reachable :: "server \<Rightarrow> bool" where
  start: "reachable init_server"
| process: "reachable s \<Longrightarrow> reachable (snd (ProcessDocument w s filepath))"
| thumbnail: "reachable s \<Longrightarrow> reachable (snd (DocThumbnail w s docIdStr))"

section \<open>A small archive\<close>

text \<open>
  A concrete world on which the theorems below are instantiated: an archive
  \<open>/archive\<close> with the category \<open>bills\<close>, the hidden directory \<open>.old\<close> and a plain
  file; the clock is UTC.
\<close>

definition days_from_civil :: "int \<Rightarrow> int \<Rightarrow> int \<Rightarrow> int" where
  "days_from_civil y m d =
     (let y' = (if m \<le> 2 then y - 1 else y);
          era = y' div 400;
          yoe = y' - era * 400;
          doy = (153 * (if m > 2 then m - 3 else m + 9) + 2) div 5 + d - 1;
          doe = yoe * 365 + yoe div 4 - yoe div 100 + doy
      in era * 146097 + doe - 719468)"

definition utc_Date :: "int \<Rightarrow> int \<Rightarrow> int \<Rightarrow> int \<Rightarrow> int \<Rightarrow> int \<Rightarrow> time" where
  "utc_Date y m d h mi s =
     (days_from_civil y m d * 86400 + h * 3600 + mi * 60 + s) * 1000000000"

definition demo_pdf :: pdf_document where
  "demo_pdf =
     \<lparr> pdf_NPages = 2, pdf_Page0_Text = ''Hi'',
       pdf_Page0_Render = (\<lambda>dpi. [nat dpi, 1, 2]) \<rparr>"

definition demo_dir :: fileinfo where
  "demo_dir = \<lparr> fi_Size = 4096, fi_ModTime = 1600000000000000000, fi_IsDir = True \<rparr>"

definition demo_file :: fileinfo where
  "demo_file = \<lparr> fi_Size = 1234, fi_ModTime = 1700000000000000000, fi_IsDir = False \<rparr>"

definition demo_world :: world where
  "demo_world =
     \<lparr> os_Open = (\<lambda>p.
         if p = ''/archive/bills'' \<or> p = ''/archive/.old'' then Inr (Inr demo_dir)
         else if p = ''/archive/bills/2021_03_04_10_15_30_report.pdf''
                 \<or> p = ''/archive/bills/report.pdf''
                 \<or> p = ''/archive/bills/broken.pdf''
                 \<or> p = ''/archive/.old/scan.pdf''
                 \<or> p = ''/archive/readme.txt''
           then Inr (Inr demo_file)
         else Inl ''no such file or directory''),
       poppler_Open = (\<lambda>p.
         if p = ''/archive/bills/2021_03_04_10_15_30_report.pdf''
            \<or> p = ''/archive/bills/report.pdf''
            \<or> p = ''/archive/.old/scan.pdf''
           then Inr demo_pdf
         else Inl ''not a PDF document''),
       readdir = (\<lambda>p.
         if p = ''/archive'' then Some [''bills'', ''.old'', ''readme.txt'']
         else if p = ''/archive/bills''
           then Some [''report.pdf'', ''broken.pdf'', ''2021_03_04_10_15_30_report.pdf'',
                      ''notes.txt'']
         else if p = ''/archive/.old'' then Some [''scan.pdf'']
         else None),
       lstat_ok = (\<lambda>p. False),
       time_Date = utc_Date,
       jpeg_Encode = (\<lambda>img. map char_of img) \<rparr>"

lemma demo_os_Open:
  "os_Open demo_world ''/archive/bills/2021_03_04_10_15_30_report.pdf'' = Inr (Inr demo_file)"
  "os_Open demo_world ''/archive/bills/report.pdf'' = Inr (Inr demo_file)"
  "os_Open demo_world ''/archive/bills/broken.pdf'' = Inr (Inr demo_file)"
  "os_Open demo_world ''/archive/.old/scan.pdf'' = Inr (Inr demo_file)"
  "os_Open demo_world ''/archive/readme.txt'' = Inr (Inr demo_file)"
  "os_Open demo_world ''/archive/bills'' = Inr (Inr demo_dir)"
  "os_Open demo_world ''/archive/.old'' = Inr (Inr demo_dir)"
  "os_Open demo_world ''/archive/bills/missing.pdf'' = Inl ''no such file or directory''"
  by (simp_all add: demo_world_def)

lemma demo_poppler_Open:
  "poppler_Open demo_world ''/archive/bills/2021_03_04_10_15_30_report.pdf'' = Inr demo_pdf"
  "poppler_Open demo_world ''/archive/bills/report.pdf'' = Inr demo_pdf"
  "poppler_Open demo_world ''/archive/.old/scan.pdf'' = Inr demo_pdf"
  "poppler_Open demo_world ''/archive/bills/broken.pdf'' = Inl ''not a PDF document''"
  by (simp_all add: demo_world_def)

lemma demo_readdir:
  "readdir demo_world ''/archive'' = Some [''bills'', ''.old'', ''readme.txt'']"
  "readdir demo_world ''/archive/bills'' =
     Some [''report.pdf'', ''broken.pdf'', ''2021_03_04_10_15_30_report.pdf'', ''notes.txt'']"
  "readdir demo_world ''/archive/.old'' = Some [''scan.pdf'']"
  by (simp_all add: demo_world_def)

lemma demo_time_Date: "time_Date demo_world = utc_Date"
  by (simp add: demo_world_def)

lemma demo_jpeg_Encode: "jpeg_Encode demo_world img = map char_of img"
  by (simp add: demo_world_def)

section \<open>Properties of ProcessDocument\<close>

lemma ProcessDocument_hit:
  "docCache s (fnv64a p) = Some d \<Longrightarrow> ProcessDocument w s p = (Inr d, s)"
  by (simp add: ProcessDocument_def)

lemma ProcessDocument_fails_iff:
  "(\<exists>e. fst (ProcessDocument w s p) = Inl e) \<longleftrightarrow>
     docCache s (fnv64a p) = None \<and>
     ((\<exists>e. os_Open w p = Inl e) \<or> (\<exists>e. os_Open w p = Inr (Inl e))
        \<or> (\<exists>e. poppler_Open w p = Inl e))"
  by (auto simp: ProcessDocument_def Let_def split: option.splits sum.splits prod.splits)

lemma ProcessDocument_succeeds:
  assumes "docCache s (fnv64a p) = None" and "os_Open w p = Inr (Inr fi)"
    and "poppler_Open w p = Inr pdf"
  shows "\<exists>d s'. ProcessDocument w s p = (Inr d, s')"
  using assms by (simp add: ProcessDocument_def Let_def split: prod.splits)

lemma ProcessDocument_stores:
  "ProcessDocument w s p = (Inr d, s') \<Longrightarrow> docCache s' (fnv64a p) = Some d"
  by (auto simp: ProcessDocument_def Let_def split: option.splits sum.splits prod.splits)

lemma ProcessDocument_fresh:
  assumes "docCache s (fnv64a p) = None" and "docCache t (fnv64a p) = None"
  shows "fst (ProcessDocument w t p) = fst (ProcessDocument w s p)"
  using assms
  by (simp add: ProcessDocument_def Let_def split: option.splits sum.splits prod.splits)

lemma ProcessDocument_thumbs:
  "docThumbCache (snd (ProcessDocument w s p)) = docThumbCache s"
  by (auto simp: ProcessDocument_def Let_def split: option.splits sum.splits prod.splits)

lemma ProcessDocument_docs_mono:
  "dom (docCache s) \<subseteq> dom (docCache (snd (ProcessDocument w s p)))"
  by (auto simp: ProcessDocument_def Let_def split: option.splits sum.splits prod.splits)

lemma doScanf_dated: 
  "doScanf date_format ''2021_03_04_10_15_30_report.pdf'' [] = ([2021, 3, 4, 10, 15, 30], True)"
  by code_simp

lemma doScanf_undated: "doScanf date_format ''report.pdf'' [] = ([], False)"
  by code_simp

lemma path_Base_dated:
  "path_Base ''/archive/bills/2021_03_04_10_15_30_report.pdf'' = ''2021_03_04_10_15_30_report.pdf''"
  by code_simp

lemma path_Base_undated: "path_Base ''/archive/bills/report.pdf'' = ''report.pdf''"
  by code_simp

lemma utc_Date_example: "utc_Date 2021 3 4 10 15 30 = 1614852930000000000"
  by (simp add: utc_Date_def days_from_civil_def)

text \<open>
  C5. A record that \<open>ProcessDocument\<close> extracts (no cached record under the path's id)
  carries the file's modification time as \<open>CreateDate\<close> and the base name as \<open>Name\<close>;
  its \<open>FileDate\<close> is \<open>time.Date\<close> of the six numbers when \<open>Sscanf\<close> parses all six
  fields of \<open>%d_%d_%d_%d_%d_%d\<close> from that name without error, and the modification
  time otherwise.
\<close>

theorem C5_file_date:
  assumes "docCache s (fnv64a filepath) = None"
    and "ProcessDocument w s filepath = (Inr d, s')"
  shows "\<exists>fi. os_Open w filepath = Inr (Inr fi) \<and> CreateDate d = fi_ModTime fi \<and>
           Name d = path_Base filepath \<and>
           FileDate d =
             (case Sscanf (Name d) date_format of
                (numparsed, ok, v) \<Rightarrow>
                  if ok \<and> numparsed = 6
                  then time_Date w (v 0) (v 1) (v 2) (v 3) (v 4) (v 5)
                  else fi_ModTime fi)"
  using assms
  by (auto simp: ProcessDocument_def Let_def split: option.splits sum.splits prod.splits)

theorem C5_file_date_witness:
  "(\<exists>d s'. ProcessDocument demo_world init_server
              ''/archive/bills/2021_03_04_10_15_30_report.pdf'' = (Inr d, s') \<and>
            FileDate d = utc_Date 2021 3 4 10 15 30 \<and>
            FileDate d = 1614852930000000000) \<and>
   (\<exists>d s'. ProcessDocument demo_world init_server ''/archive/bills/report.pdf'' = (Inr d, s') \<and>
            FileDate d = fi_ModTime demo_file)"
proof -
  have none: "docCache init_server k = None" for k
    by (simp add: init_server_def)
  obtain d1 s1 where
    p1: "ProcessDocument demo_world init_server
           ''/archive/bills/2021_03_04_10_15_30_report.pdf'' = (Inr d1, s1)"
    using ProcessDocument_succeeds [OF none demo_os_Open(1) demo_poppler_Open(1)] by blast
  obtain d2 s2 where
    p2: "ProcessDocument demo_world init_server ''/archive/bills/report.pdf'' = (Inr d2, s2)"
    using ProcessDocument_succeeds [OF none demo_os_Open(2) demo_poppler_Open(2)] by blast
  have "FileDate d1 = utc_Date 2021 3 4 10 15 30"
    using C5_file_date [OF none p1]
    by (auto simp: path_Base_dated Sscanf_def doScanf_dated demo_time_Date)
  moreover have "FileDate d2 = fi_ModTime demo_file"
    using C5_file_date [OF none p2]
    by (auto simp: path_Base_undated Sscanf_def doScanf_undated demo_os_Open)
  ultimately show ?thesis
    using p1 p2 by (simp add: utc_Date_example)
qed

text \<open>
  C6. When \<open>ProcessDocument\<close> returns an error, the server state it returns is the one
  it was given (nothing is stored, under the path's id or any other), there was no
  cached record for the path, and the error is the one of \<open>os.Open\<close>, of \<open>Stat\<close> or (the
  file opened and read) of \<open>poppler.Open\<close>.
\<close>

theorem C6_extract_atomic:
  assumes "ProcessDocument w s filepath = (Inl e, s')"
  shows "s' = s \<and> docCache s' (fnv64a filepath) = None \<and>
         (os_Open w filepath = Inl e \<or> os_Open w filepath = Inr (Inl e)
            \<or> (\<exists>fi. os_Open w filepath = Inr (Inr fi)) \<and> poppler_Open w filepath = Inl e)"
  using assms
  by (auto simp: ProcessDocument_def Let_def split: option.splits sum.splits prod.splits)

theorem C6_extract_atomic_witness:
  "ProcessDocument demo_world init_server ''/archive/bills/broken.pdf''
     = (Inl ''not a PDF document'', init_server) \<and>
   ProcessDocument demo_world init_server ''/archive/bills/missing.pdf''
     = (Inl ''no such file or directory'', init_server) \<and>
   docCache init_server (fnv64a ''/archive/bills/broken.pdf'') = None"
proof -
  have none: "docCache init_server k = None" for k
    by (simp add: init_server_def)
  have "\<exists>e. fst (ProcessDocument demo_world init_server ''/archive/bills/broken.pdf'') = Inl e"
    unfolding ProcessDocument_fails_iff by (simp add: none demo_os_Open demo_poppler_Open)
  then obtain e1 s1 where
    p1: "ProcessDocument demo_world init_server ''/archive/bills/broken.pdf'' = (Inl e1, s1)"
    by (metis prod.collapse)
  have "\<exists>e. fst (ProcessDocument demo_world init_server ''/archive/bills/missing.pdf'') = Inl e"
    unfolding ProcessDocument_fails_iff by (simp add: none demo_os_Open demo_poppler_Open)
  then obtain e2 s2 where
    p2: "ProcessDocument demo_world init_server ''/archive/bills/missing.pdf'' = (Inl e2, s2)"
    by (metis prod.collapse)
  from C6_extract_atomic [OF p1] have "s1 = init_server" "e1 = ''not a PDF document''"
    by (auto simp: demo_os_Open demo_poppler_Open)
  moreover from C6_extract_atomic [OF p2]
  have "s2 = init_server" "e2 = ''no such file or directory''"
    by (auto simp: demo_os_Open demo_poppler_Open)
  ultimately show ?thesis using p1 p2 none by simp
qed

text \<open>
  C7. After \<open>ProcessDocument\<close> has returned a record for a path, a second call for the
  path returns the same record and leaves the caches as they are, whatever has become
  of the file; a call that finds a cached record returns that record and changes
  nothing; and two extractions of the path from the same world that both find the
  cache without a record for it return equal records.
\<close>

theorem C7_extract_idempotent:
  assumes "ProcessDocument w s filepath = (Inr d, s1)"
  shows "ProcessDocument w' s1 filepath = (Inr d, s1) \<and>
         (\<forall>d0. docCache s (fnv64a filepath) = Some d0 \<longrightarrow> d = d0 \<and> s1 = s) \<and>
         (\<forall>t::server. docCache s (fnv64a filepath) = None \<and> docCache t (fnv64a filepath) = None
               \<longrightarrow> fst (ProcessDocument w t filepath) = Inr d)"
proof (intro conjI allI impI)
  show "ProcessDocument w' s1 filepath = (Inr d, s1)"
    using ProcessDocument_stores [OF assms] by (rule ProcessDocument_hit)
next
  fix d0 assume "docCache s (fnv64a filepath) = Some d0"
  from ProcessDocument_hit [OF this, of w] assms show "d = d0" and "s1 = s" by simp_all
next
  fix t :: server assume "docCache s (fnv64a filepath) = None \<and> docCache t (fnv64a filepath) = None"
  then show "fst (ProcessDocument w t filepath) = Inr d"
    using ProcessDocument_fresh [of s filepath t w] assms by simp
qed

theorem C7_extract_idempotent_witness:
  "\<exists>d s1. ProcessDocument demo_world init_server ''/archive/bills/report.pdf'' = (Inr d, s1) \<and>
          ProcessDocument demo_world s1 ''/archive/bills/report.pdf'' = (Inr d, s1) \<and>
          Name d = ''report.pdf'' \<and> docCache s1 (fnv64a ''/archive/bills/report.pdf'') = Some d"
proof -
  have none: "docCache init_server k = None" for k
    by (simp add: init_server_def)
  obtain d s1 where
    p: "ProcessDocument demo_world init_server ''/archive/bills/report.pdf'' = (Inr d, s1)"
    using ProcessDocument_succeeds [OF none demo_os_Open(2) demo_poppler_Open(2)] by blast
  from C7_extract_idempotent [OF p, of demo_world]
  have "ProcessDocument demo_world s1 ''/archive/bills/report.pdf'' = (Inr d, s1)" by simp
  moreover from p have "Name d = ''report.pdf''"
    by (auto simp: ProcessDocument_def Let_def none path_Base_undated
             split: sum.splits prod.splits)
  ultimately show ?thesis using p ProcessDocument_stores [OF p] by simp
qed

section \<open>Properties of DocThumbnail\<close>

lemma DocThumbnail_docs:
  "docCache (snd (DocThumbnail w s i)) = docCache s"
  by (auto simp: DocThumbnail_def Let_def split: option.splits sum.splits prod.splits)

lemma DocThumbnail_thumbs:
  "dom (docThumbCache s) \<subseteq> dom (docCache s) \<Longrightarrow>
   dom (docThumbCache (snd (DocThumbnail w s i))) \<subseteq> dom (docCache s)"
  by (auto simp: DocThumbnail_def Let_def
           split: option.splits sum.splits prod.splits if_splits)

text \<open>A thumbnail is only ever stored for an id that has a document record.\<close>

lemma reachable_thumbs:
  "reachable s \<Longrightarrow> dom (docThumbCache s) \<subseteq> dom (docCache s)"
proof (induction rule: reachable.induct)
  case start
  show ?case by (simp add: init_server_def)
next
  case (process s w filepath)
  then show ?case
    using ProcessDocument_docs_mono [of s w filepath]
    by (auto simp: ProcessDocument_thumbs)
next
  case (thumbnail s w docIdStr)
  then show ?case
    using DocThumbnail_thumbs [of s w docIdStr] by (simp add: DocThumbnail_docs)
qed

lemmas ParseUint_eval =
  ParseUint_def isDigit_def byte_of_def cutoff_def maxVal_def word_le_nat_alt
  word_less_nat_alt

lemma fnv64a_report: "fnv64a ''/archive/bills/report.pdf'' = 8300962066720016320"
  by (simp add: fnv64a_def offset64_def prime64_def byte_of_def)

text \<open>
  C1. A thumbnail request for an id without a record in \<open>docCache\<close> does not come
  back with an error. In every state the server can reach, the handler hands
  "Requesting unknown document: id" to the \<open>ResponseWriter\<close> (after "Invalid docid: ..."
  when the id did not parse), does not return there (lines 257-260 have no \<open>return\<close>),
  and ends in the nil-pointer panic of line 262, \<open>prestoredDoc.FilePath\<close> with
  \<open>prestoredDoc\<close> nil. That panic comes before \<open>poppler.Open\<close>, so the PDF library is
  not called and both caches are as they were.
\<close>

theorem C1_unknown_document_panics:
  assumes "reachable s" and "ParseUint docIdStr = (docId, ok)"
    and "docCache s docId = None"
  shows "DocThumbnail w s docIdStr =
           (\<lparr> body = (if ok then [] else ''Invalid docid: '' @ docIdStr) @
                     ''Requesting unknown document: '' @ decimal (unat docId),
              pdf_io = [], ending = Panicked \<rparr>, s)"
proof -
  from reachable_thumbs [OF assms(1)] assms(3) have "docThumbCache s docId = None"
    by (meson domIff subsetD)
  with assms(2,3) show ?thesis by (simp add: DocThumbnail_def)
qed

theorem C1_unknown_document_panics_witness:
  "\<exists>d s0. ProcessDocument demo_world init_server ''/archive/bills/report.pdf'' = (Inr d, s0) \<and>
      reachable s0 \<and> docCache s0 8300962066720016320 = Some d \<and> docCache s0 42 = None \<and>
      ParseUint ''42'' = (42, True) \<and>
      DocThumbnail demo_world s0 ''42'' =
        (\<lparr> body = ''Requesting unknown document: 42'', pdf_io = [], ending = Panicked \<rparr>, s0) \<and>
      ending (fst (DocThumbnail demo_world s0 ''42'')) \<noteq> Returned"
proof -
  have none: "docCache init_server k = None" for k
    by (simp add: init_server_def)
  obtain d s0 where
    p: "ProcessDocument demo_world init_server ''/archive/bills/report.pdf'' = (Inr d, s0)"
    using ProcessDocument_succeeds [OF none demo_os_Open(2) demo_poppler_Open(2)] by blast
  have r: "reachable s0"
    using reachable.process [OF reachable.start, of demo_world "''/archive/bills/report.pdf''"] p
    by simp
  have doc: "docCache s0 8300962066720016320 = Some d"
    using ProcessDocument_stores [OF p] by (simp add: fnv64a_report)
  have absent: "docCache s0 42 = None"
    using p
    by (auto simp: ProcessDocument_def Let_def none fnv64a_report init_server_def
             split: sum.splits prod.splits)
  have pu: "ParseUint ''42'' = (42, True)"
    by (simp add: ParseUint_eval)
  have dec: "decimal (unat (42 :: 64 word)) = ''42''"
    by code_simp
  have "DocThumbnail demo_world s0 ''42'' =
          (\<lparr> body = (if True then [] else ''Invalid docid: '' @ ''42'') @
                    ''Requesting unknown document: '' @ ''42'',
             pdf_io = [], ending = Panicked \<rparr>, s0)"
    using C1_unknown_document_panics [OF r pu absent, of demo_world] unfolding dec .
  then have "DocThumbnail demo_world s0 ''42'' =
          (\<lparr> body = ''Requesting unknown document: 42'', pdf_io = [], ending = Panicked \<rparr>, s0)"
    by simp
  then show ?thesis using p r doc absent pu by simp
qed

text \<open>
  C8. When a thumbnail request for an id with a document record has returned, a second
  request for the id, whatever the PDF library would answer by then, writes the same
  bytes, makes no call on the PDF library, and leaves the caches as they are: the
  first request has left the id in \<open>docThumbCache\<close>.
\<close>

theorem C8_thumbnail_cached:
  assumes "ParseUint docIdStr = (docId, True)" and "docCache s docId = Some doc"
    and "DocThumbnail w s docIdStr = (r1, s1)" and "ending r1 = Returned"
    and "DocThumbnail w' s1 docIdStr = (r2, s2)"
  shows "body r2 = body r1 \<and> pdf_io r2 = [] \<and> ending r2 = Returned \<and> s2 = s1 \<and>
         docThumbCache s1 docId \<noteq> None"
  using assms
  by (auto simp: DocThumbnail_def Let_def split: option.splits sum.splits)

lemma DocThumbnail_renders:
  assumes "ParseUint docIdStr = (docId, True)" and "docThumbCache s docId = None"
    and "docCache s docId = Some doc" and "poppler_Open w (FilePath doc) = Inr pdf"
  shows "\<exists>r1 s1. DocThumbnail w s docIdStr = (r1, s1) \<and> ending r1 = Returned \<and>
           body r1 = jpeg_Encode w (pdf_Page0_Render pdf 300) \<and>
           pdf_io r1 = [PdfOpen (FilePath doc), PdfGetPage 0, PdfRender 300]"
  using assms by (simp add: DocThumbnail_def Let_def)

theorem C8_thumbnail_cached_witness:
  "\<exists>d s0 r1 s1 r2.
     ProcessDocument demo_world init_server ''/archive/bills/report.pdf'' = (Inr d, s0) \<and>
     DocThumbnail demo_world s0 ''8300962066720016320'' = (r1, s1) \<and>
     pdf_io r1 = [PdfOpen ''/archive/bills/report.pdf'', PdfGetPage 0, PdfRender 300] \<and>
     DocThumbnail demo_world s1 ''8300962066720016320'' = (r2, s1) \<and>
     body r2 = body r1 \<and> pdf_io r2 = [] \<and> ending r2 = Returned"
proof -
  have none: "docCache init_server k = None" for k
    by (simp add: init_server_def)
  obtain d s0 where
    p: "ProcessDocument demo_world init_server ''/archive/bills/report.pdf'' = (Inr d, s0)"
    using ProcessDocument_succeeds [OF none demo_os_Open(2) demo_poppler_Open(2)] by blast
  have pu: "ParseUint ''8300962066720016320'' = (8300962066720016320, True)"
    by (simp add: ParseUint_eval)
  have doc: "docCache s0 8300962066720016320 = Some d"
    using ProcessDocument_stores [OF p] by (simp add: fnv64a_report)
  have path: "FilePath d = ''/archive/bills/report.pdf''"
    using p by (auto simp: ProcessDocument_def Let_def none split: sum.splits prod.splits)
  have "docThumbCache s0 = docThumbCache init_server"
    using ProcessDocument_thumbs [of demo_world init_server "''/archive/bills/report.pdf''"] p
    by simp
  then have nothumb: "docThumbCache s0 8300962066720016320 = None"
    by (simp add: init_server_def)
  from DocThumbnail_renders [OF pu nothumb doc, of demo_world demo_pdf]
  obtain r1 s1 where
    t1: "DocThumbnail demo_world s0 ''8300962066720016320'' = (r1, s1)"
    and e1: "ending r1 = Returned"
    and io1: "pdf_io r1 = [PdfOpen ''/archive/bills/report.pdf'', PdfGetPage 0, PdfRender 300]"
    by (auto simp: path demo_poppler_Open)
  obtain r2 s2 where t2: "DocThumbnail demo_world s1 ''8300962066720016320'' = (r2, s2)"
    by (cases "DocThumbnail demo_world s1 ''8300962066720016320''") blast
  from C8_thumbnail_cached [OF pu doc t1 e1 t2]
  show ?thesis using p t1 t2 io1 by blast
qed

section \<open>encoding/json: which fields of a struct are written\<close>

text \<open>
  \<open>json.Encoder.Encode\<close> writes a struct as an object with one member per field that
  \<open>typeFields\<close> keeps, in the order of the declaration. A field tagged \<open>json:"-"\<close> is
  left out. The name of a member is the tag's name, or the Go name for an empty tag.
  Fields of one name are settled by \<open>dominantField\<close>: tagged fields come before
  untagged ones, and when the first two are both tagged or both untagged (all fields
  of \<open>ArchiveDoc\<close> are at the same depth) none of that name is written.
\<close>

datatype json_value = JNumber int | JString string | JTime time

record struct_field =
  go_name :: string
  json_tag :: string

definition json_name :: "struct_field \<Rightarrow> string" where
  "json_name f = (if json_tag f = [] then go_name f else json_tag f)"

definition tagged :: "struct_field \<Rightarrow> bool" where
  "tagged f = (json_tag f \<noteq> [])"

definition dominantField :: "struct_field list \<Rightarrow> struct_field option" where
  "dominantField fs =
     (case fs of
        [] \<Rightarrow> None
      | [f] \<Rightarrow> Some f
      | f # g # rest \<Rightarrow> if tagged f = tagged g then None else Some f)"

definition typeFields :: "struct_field list \<Rightarrow> struct_field list" where
  "typeFields fs =
     (let named = filter (\<lambda>f. json_tag f \<noteq> ''-'') fs;
          same = (\<lambda>f. filter (\<lambda>g. json_name g = json_name f) named)
      in filter (\<lambda>f. dominantField (filter tagged (same f) @ filter (\<lambda>g. \<not> tagged g) (same f))
                        = Some f) named)"

text \<open>The struct \<open>ArchiveDoc\<close> with its tags (lines 42-51), and the value of a field.\<close>

definition ArchiveDoc_struct :: "struct_field list" where
  "ArchiveDoc_struct =
     [\<lparr> go_name = ''Id'', json_tag = ''id'' \<rparr>,
      \<lparr> go_name = ''Name'', json_tag = ''name'' \<rparr>,
      \<lparr> go_name = ''Size'', json_tag = ''size'' \<rparr>,
      \<lparr> go_name = ''CreateDate'', json_tag = ''timestamp'' \<rparr>,
      \<lparr> go_name = ''FileDate'', json_tag = ''timestamp'' \<rparr>,
      \<lparr> go_name = ''Pages'', json_tag = ''pages'' \<rparr>,
      \<lparr> go_name = ''Content'', json_tag = ''content'' \<rparr>,
      \<lparr> go_name = ''FilePath'', json_tag = ''-'' \<rparr>]"

definition ArchiveDoc_field :: "ArchiveDoc \<Rightarrow> string \<Rightarrow> json_value" where
  "ArchiveDoc_field d n =
     (if n = ''Id'' then JNumber (uint (Id d))
      else if n = ''Name'' then JString (Name d)
      else if n = ''Size'' then JNumber (Size d)
      else if n = ''CreateDate'' then JTime (CreateDate d)
      else if n = ''FileDate'' then JTime (FileDate d)
      else if n = ''Pages'' then JNumber (Pages d)
      else if n = ''Content'' then JString (Content d)
      else JString (FilePath d))"

definition Encode_ArchiveDoc :: "ArchiveDoc \<Rightarrow> (string \<times> json_value) list" where
  "Encode_ArchiveDoc d =
     map (\<lambda>f. (json_name f, ArchiveDoc_field d (go_name f))) (typeFields ArchiveDoc_struct)"

lemma typeFields_ArchiveDoc:
  "typeFields ArchiveDoc_struct =
     [\<lparr> go_name = ''Id'', json_tag = ''id'' \<rparr>,
      \<lparr> go_name = ''Name'', json_tag = ''name'' \<rparr>,
      \<lparr> go_name = ''Size'', json_tag = ''size'' \<rparr>,
      \<lparr> go_name = ''Pages'', json_tag = ''pages'' \<rparr>,
      \<lparr> go_name = ''Content'', json_tag = ''content'' \<rparr>]"
  by (simp add: typeFields_def ArchiveDoc_struct_def json_name_def tagged_def
        dominantField_def)

text \<open>
  C4. The object written for a document has the members \<open>id\<close>, \<open>name\<close>, \<open>size\<close>,
  \<open>pages\<close> and \<open>content\<close>, in this order, and no other: \<open>CreateDate\<close> and \<open>FileDate\<close>
  carry the same tag \<open>timestamp\<close>, so neither is written, and there is no member
  \<open>timestamp\<close> at all. The path is not written.
\<close>

theorem C4_json_members:
  "Encode_ArchiveDoc d =
     [(''id'', JNumber (uint (Id d))), (''name'', JString (Name d)),
      (''size'', JNumber (Size d)), (''pages'', JNumber (Pages d)),
      (''content'', JString (Content d))] \<and>
   ''timestamp'' \<notin> fst ` set (Encode_ArchiveDoc d) \<and>
   JTime (CreateDate d) \<notin> snd ` set (Encode_ArchiveDoc d) \<and>
   JTime (FileDate d) \<notin> snd ` set (Encode_ArchiveDoc d)"
  by (simp add: Encode_ArchiveDoc_def typeFields_ArchiveDoc json_name_def ArchiveDoc_field_def)

end
